theory Spec2Isabelle
  imports Main
begin

section \<open>Text\<close>

text \<open>
  The converter of \<^verbatim>\<open>scripts/convert_html_to_markdown.py\<close> is a pipeline of
  regular-expression rewrites over one Python \<^verbatim>\<open>str\<close>. A text is modelled as a
  \<^typ>\<open>string\<close>: the UTF-8 bytes of the Python string. Whitespace and letter case are
  those of ASCII; a byte of 128 or more is neither whitespace nor a letter. The
  zero-width space U+200B, which the source removes in two places, is the three bytes
  \<open>E2 80 8B\<close>.
\<close>

definition is_space :: "char \<Rightarrow> bool" where
  "is_space c = (c \<in> set [CHR '' '', CHR 0x09, CHR 0x0A, CHR 0x0B, CHR 0x0C, CHR 0x0D,
                             CHR 0x1C, CHR 0x1D, CHR 0x1E, CHR 0x1F])"

definition is_upper :: "char \<Rightarrow> bool" where
  "is_upper c = ((65::nat) \<le> of_char c \<and> (of_char c :: nat) \<le> 90)"

definition is_lower :: "char \<Rightarrow> bool" where
  "is_lower c = ((97::nat) \<le> of_char c \<and> (of_char c :: nat) \<le> 122)"

definition lower_char :: "char \<Rightarrow> char" where
  "lower_char c = (if is_upper c then char_of ((of_char c :: nat) + 32) else c)"

definition upper_char :: "char \<Rightarrow> char" where
  "upper_char c = (if is_lower c then char_of ((of_char c :: nat) - 32) else c)"

definition zwsp :: string where
  "zwsp = [CHR 0xE2, CHR 0x80, CHR 0x8B]"

subsection \<open>The methods of \<^verbatim>\<open>str\<close> that the converter calls\<close>

definition lower :: "string \<Rightarrow> string" where
  "lower s = map lower_char s"

definition upper :: "string \<Rightarrow> string" where
  "upper s = map upper_char s"

fun capitalize :: "string \<Rightarrow> string" where
  "capitalize [] = []"
| "capitalize (c # cs) = upper_char c # map lower_char cs"

definition strip :: "string \<Rightarrow> string" where
  "strip s = rev (dropWhile is_space (rev (dropWhile is_space s)))"

fun startswith :: "string \<Rightarrow> string \<Rightarrow> bool" where
  "startswith s [] = True"
| "startswith [] (p # ps) = False"
| "startswith (c # cs) (p # ps) = (c = p \<and> startswith cs ps)"

text \<open>\<^verbatim>\<open>sub in s\<close>\<close>

fun contains :: "string \<Rightarrow> string \<Rightarrow> bool" where
  "contains [] sub = (sub = [])"
| "contains (c # cs) sub = (startswith (c # cs) sub \<or> contains cs sub)"

text \<open>\<^verbatim>\<open>s.rfind(sub)\<close>: the highest index at which \<open>sub\<close> starts, or \<open>-1\<close>.\<close>

definition rfind :: "string \<Rightarrow> string \<Rightarrow> int" where
  "rfind s sub =
     (case filter (\<lambda>i. startswith (drop i s) sub) (rev [0 ..< Suc (length s)]) of
        [] \<Rightarrow> - 1
      | i # _ \<Rightarrow> int i)"

text \<open>\<^verbatim>\<open>sep.join(xs)\<close>\<close>

fun join :: "string \<Rightarrow> string list \<Rightarrow> string" where
  "join sep [] = []"
| "join sep [x] = x"
| "join sep (x # y # ys) = x @ sep @ join sep (y # ys)"

text \<open>\<^verbatim>\<open>s.split(d)\<close> for a one-character separator: never an empty list.\<close>

fun split_on :: "char \<Rightarrow> string \<Rightarrow> string list" where
  "split_on d [] = [[]]"
| "split_on d (c # cs) =
     (if c = d then [] # split_on d cs
      else (case split_on d cs of
              [] \<Rightarrow> [[c]]
            | x # xs \<Rightarrow> (c # x) # xs))"

text \<open>\<^verbatim>\<open>s.split()\<close>: the maximal runs of non-whitespace; \<open>w\<close> is the word being read.\<close>

fun split_ws_from :: "string \<Rightarrow> string \<Rightarrow> string list" where
  "split_ws_from w [] = (if w = [] then [] else [w])"
| "split_ws_from w (c # cs) =
     (if is_space c then (if w = [] then split_ws_from [] cs else w # split_ws_from [] cs)
      else split_ws_from (w @ [c]) cs)"

definition split_ws :: "string \<Rightarrow> string list" where
  "split_ws s = split_ws_from [] s"

text \<open>\<^verbatim>\<open>s.replace(old, new)\<close> for a non-empty \<open>old\<close> (the only use in the source):
  occurrences are replaced from the left and do not overlap.\<close>

function replace :: "string \<Rightarrow> string \<Rightarrow> string \<Rightarrow> string" where
  "replace old new [] = []"
| "replace old new (c # cs) =
     (if old \<noteq> [] \<and> startswith (c # cs) old
      then new @ replace old new (drop (length old) (c # cs))
      else c # replace old new cs)"
  by pat_completeness auto
termination
  by (relation "measure (\<lambda>(old, new, s). length s)") (auto simp: neq_Nil_conv)

section \<open>Errors\<close>

text \<open>
  The source has no \<^verbatim>\<open>raise\<close> of its own. What can raise in it is the use of a
  value that may be \<^verbatim>\<open>None\<close> as a string (\<^verbatim>\<open>match.group(k)\<close> of a group that took no
  part in the match), \<^verbatim>\<open>int(...)\<close> of a string that is no number, and
  \<^verbatim>\<open>html.unescape\<close>. All are branches of the model: a function that can raise returns
  \<open>error + 'a\<close>.
\<close>

datatype error = TypeError | ValueError

definition bind_e :: "error + 'a \<Rightarrow> ('a \<Rightarrow> error + 'b) \<Rightarrow> error + 'b" where
  "bind_e x f = (case x of Inl e \<Rightarrow> Inl e | Inr v \<Rightarrow> f v)"

text \<open>A value that the code goes on to use as a \<^verbatim>\<open>str\<close>; \<^verbatim>\<open>None\<close> there raises.\<close>

definition as_str :: "string option \<Rightarrow> error + string" where
  "as_str x = (case x of None \<Rightarrow> Inl TypeError | Some s \<Rightarrow> Inr s)"

fun all_str :: "string option list \<Rightarrow> error + string list" where
  "all_str [] = Inr []"
| "all_str (x # xs) =
     bind_e (as_str x) (\<lambda>s. bind_e (all_str xs) (\<lambda>ss. Inr (s # ss)))"

fun map_e :: "('a \<Rightarrow> error + 'b) \<Rightarrow> 'a list \<Rightarrow> error + 'b list" where
  "map_e f [] = Inr []"
| "map_e f (x # xs) = bind_e (f x) (\<lambda>y. bind_e (map_e f xs) (\<lambda>ys. Inr (y # ys)))"

text \<open>\<^verbatim>\<open>int(s)\<close> for a string of ASCII digits. Python's \<^verbatim>\<open>int\<close> accepts a sign,
  surrounding whitespace and underscores as well; the one call of the source passes the
  text matched by \<^verbatim>\<open>[1-6]\<close>, so the model raises on everything but digits.\<close>

definition digit_val :: "char \<Rightarrow> nat" where
  "digit_val c = of_char c - 48"

definition is_digit :: "char \<Rightarrow> bool" where
  "is_digit c = ((48::nat) \<le> of_char c \<and> (of_char c :: nat) \<le> 57)"

definition py_int :: "string \<Rightarrow> error + nat" where
  "py_int s =
     (if s \<noteq> [] \<and> list_all is_digit s
      then Inr (foldl (\<lambda>n c. 10 * n + digit_val c) 0 s)
      else Inl ValueError)"

section \<open>Regular expressions\<close>

text \<open>
  The module \<^verbatim>\<open>re\<close> is Python's backtracking matcher. The patterns of the source use
  literal characters, \<^verbatim>\<open>.\<close>, character classes, quantifiers on single characters
  (greedy and lazy), capture groups, one alternation, one lookahead, one backreference
  and the anchors \<^verbatim>\<open>^\<close> and \<^verbatim>\<open>$\<close>. A pattern is a list of items, matched from
  left to right against the rest of the text, with the priorities of \<^verbatim>\<open>re\<close>:
  a greedy quantifier tries the longer match first, a lazy one the shorter, an
  alternation its left branch first.
\<close>

datatype citem = Single char | Between char char | Space | NonSpace

datatype atom = Lit char | Dot | Set "citem list" | NSet "citem list"

datatype item =
    One atom
  | Rep atom nat "nat option" bool
  | Open nat
  | Close nat
  | Alt "item list" "item list"
  | Ahead "item list"
  | Bol
  | Eol
  | Back nat
  | Moved nat

text \<open>
  \<open>Rep a lo hi greedy\<close> is \<open>a{lo,hi}\<close> (\<open>hi = None\<close>: unbounded); \<open>Open k\<close> and
  \<open>Close k\<close> are the parentheses of group \<open>k\<close>; \<open>Ahead\<close> is \<^verbatim>\<open>(?=...)\<close>;
  \<open>Back k\<close> is \<^verbatim>\<open>\k\<close>. \<open>Moved n\<close> is no syntax of \<^verbatim>\<open>re\<close>: it holds where the
  rest of the text is not \<open>n\<close> characters long, and is how a search is told that an
  empty match is not allowed at its first position.
\<close>

record flags =
  dotall :: bool
  icase :: bool

definition F0 :: flags where
  "F0 = \<lparr>dotall = False, icase = False\<rparr>"

definition DOTALL :: flags where
  "DOTALL = \<lparr>dotall = True, icase = False\<rparr>"

definition IGNORECASE :: flags where
  "IGNORECASE = \<lparr>dotall = False, icase = True\<rparr>"

definition DOTALL_IGNORECASE :: flags where
  "DOTALL_IGNORECASE = \<lparr>dotall = True, icase = True\<rparr>"

fun in_citem :: "char \<Rightarrow> citem \<Rightarrow> bool" where
  "in_citem c (Single d) = (c = d)"
| "in_citem c (Between lo hi) =
     ((of_char lo :: nat) \<le> of_char c \<and> (of_char c :: nat) \<le> of_char hi)"
| "in_citem c Space = is_space c"
| "in_citem c NonSpace = (\<not> is_space c)"

fun amatch :: "flags \<Rightarrow> atom \<Rightarrow> char \<Rightarrow> bool" where
  "amatch fl (Lit d) c = (if icase fl then lower_char c = lower_char d else c = d)"
| "amatch fl Dot c = (dotall fl \<or> c \<noteq> CHR 0x0A)"
| "amatch fl (Set xs) c = list_ex (in_citem c) xs"
| "amatch fl (NSet xs) c = (\<not> list_ex (in_citem c) xs)"

fun dec :: "nat option \<Rightarrow> nat option" where
  "dec None = None"
| "dec (Some n) = Some (n - 1)"

type_synonym caps = "(nat \<times> string) list"

text \<open>The text \<open>t\<close> at the head of \<open>s\<close> (for a backreference): what follows it.\<close>

fun lit_prefix :: "flags \<Rightarrow> string \<Rightarrow> string \<Rightarrow> string option" where
  "lit_prefix fl [] s = Some s"
| "lit_prefix fl (d # ds) [] = None"
| "lit_prefix fl (d # ds) (c # cs) =
     (if amatch fl (Lit d) c then lit_prefix fl ds cs else None)"

text \<open>
  \<open>rmatch fl r b mk cp s\<close> matches the items \<open>r\<close> at the head of \<open>s\<close>. \<open>b\<close> says
  that \<open>s\<close> is the whole text (for \<^verbatim>\<open>^\<close>), \<open>mk\<close> holds the rest of the text at each
  group's opening parenthesis, \<open>cp\<close> the groups closed so far, latest first. The result
  is the rest of the text after the match and the groups, or \<open>None\<close>.
\<close>

function (sequential) rmatch ::
  "flags \<Rightarrow> item list \<Rightarrow> bool \<Rightarrow> caps \<Rightarrow> caps \<Rightarrow> string \<Rightarrow> (string \<times> caps) option" where
  "rmatch fl [] b mk cp s = Some (s, cp)"
| "rmatch fl (One a # r) b mk cp [] = None"
| "rmatch fl (One a # r) b mk cp (c # cs) =
     (if amatch fl a c then rmatch fl r False mk cp cs else None)"
| "rmatch fl (Rep a (Suc lo) hi g # r) b mk cp [] = None"
| "rmatch fl (Rep a (Suc lo) hi g # r) b mk cp (c # cs) =
     (if amatch fl a c then rmatch fl (Rep a lo (dec hi) g # r) False mk cp cs else None)"
| "rmatch fl (Rep a 0 hi g # r) b mk cp [] = rmatch fl r b mk cp []"
| "rmatch fl (Rep a 0 hi g # r) b mk cp (c # cs) =
     (if hi = Some 0 \<or> \<not> amatch fl a c then rmatch fl r b mk cp (c # cs)
      else if g then
        (case rmatch fl (Rep a 0 (dec hi) g # r) False mk cp cs of
           Some x \<Rightarrow> Some x
         | None \<Rightarrow> rmatch fl r b mk cp (c # cs))
      else
        (case rmatch fl r b mk cp (c # cs) of
           Some x \<Rightarrow> Some x
         | None \<Rightarrow> rmatch fl (Rep a 0 (dec hi) g # r) False mk cp cs))"
| "rmatch fl (Open k # r) b mk cp s = rmatch fl r b ((k, s) # mk) cp s"
| "rmatch fl (Close k # r) b mk cp s =
     (case map_of mk k of
        None \<Rightarrow> None
      | Some t \<Rightarrow> rmatch fl r b mk ((k, take (length t - length s) t) # cp) s)"
| "rmatch fl (Alt xs ys # r) b mk cp s =
     (case rmatch fl (xs @ r) b mk cp s of
        Some x \<Rightarrow> Some x
      | None \<Rightarrow> rmatch fl (ys @ r) b mk cp s)"
| "rmatch fl (Ahead xs # r) b mk cp s =
     (case rmatch fl xs b mk cp s of
        Some x \<Rightarrow> rmatch fl r b mk cp s
      | None \<Rightarrow> None)"
| "rmatch fl (Bol # r) b mk cp s = (if b then rmatch fl r b mk cp s else None)"
| "rmatch fl (Eol # r) b mk cp s =
     (if s = [] \<or> s = [CHR 0x0A] then rmatch fl r b mk cp s else None)"
| "rmatch fl (Back k # r) b mk cp s =
     (case map_of cp k of
        None \<Rightarrow> None
      | Some t \<Rightarrow>
          (case lit_prefix fl t s of
             None \<Rightarrow> None
           | Some s' \<Rightarrow> rmatch fl r (b \<and> t = []) mk cp s'))"
| "rmatch fl (Moved n # r) b mk cp s =
     (if length s \<noteq> n then rmatch fl r b mk cp s else None)"
  by pat_completeness auto
termination
  by (relation "measures [\<lambda>(fl, r, b, mk, cp, s). size_list size r,
                           \<lambda>(fl, r, b, mk, cp, s). length s]") auto

subsection \<open>Writing patterns\<close>

definition lit :: "string \<Rightarrow> item list" where
  "lit s = map (\<lambda>c. One (Lit c)) s"

definition not_ch :: "char \<Rightarrow> atom" where
  "not_ch c = NSet [Single c]"

definition star :: "atom \<Rightarrow> item" where
  "star a = Rep a 0 None True"

definition plus :: "atom \<Rightarrow> item" where
  "plus a = Rep a 1 None True"

definition lazy :: "atom \<Rightarrow> item" where
  "lazy a = Rep a 0 None False"

definition opt :: "atom \<Rightarrow> item" where
  "opt a = Rep a 0 (Some 1) True"

subsection \<open>The functions of \<^verbatim>\<open>re\<close>\<close>

text \<open>A match object: the matched text (group 0) and the groups.\<close>

type_synonym mobj = "string \<times> caps"

text \<open>\<^verbatim>\<open>m.group(k)\<close>: \<open>None\<close> is Python's \<^verbatim>\<open>None\<close>, for a group that took no part.\<close>

definition group :: "mobj \<Rightarrow> nat \<Rightarrow> string option" where
  "group m k = (if k = 0 then Some (fst m) else map_of (snd m) k)"

text \<open>
  \<^verbatim>\<open>re.search\<close>: the match at the leftmost position that has one.
\<close>

fun search_from :: "flags \<Rightarrow> item list \<Rightarrow> bool \<Rightarrow> string \<Rightarrow> mobj option" where
  "search_from fl rx b [] =
     (case rmatch fl rx b [] [] [] of
        None \<Rightarrow> None
      | Some (s', cp) \<Rightarrow> Some ([], cp))"
| "search_from fl rx b (c # cs) =
     (case rmatch fl rx b [] [] (c # cs) of
        None \<Rightarrow> search_from fl rx False cs
      | Some (s', cp) \<Rightarrow> Some (take (length (c # cs) - length s') (c # cs), cp))"

definition re_search :: "flags \<Rightarrow> item list \<Rightarrow> string \<Rightarrow> mobj option" where
  "re_search fl rx s = search_from fl rx True s"

text \<open>
  The matches that \<^verbatim>\<open>re.sub\<close>, \<^verbatim>\<open>re.findall\<close> and \<^verbatim>\<open>re.split\<close> walk through, as the
  text cut into unmatched characters and matches. After a match the search goes on at
  its end; after an empty match it goes on at the same position, where the next match
  must not be empty (\<open>adv\<close>).
\<close>

datatype tok = Ch char | Mt mobj

function scan :: "flags \<Rightarrow> item list \<Rightarrow> bool \<Rightarrow> bool \<Rightarrow> string \<Rightarrow> tok list" where
  "scan fl rx b adv s =
     (case rmatch fl (if adv then rx @ [Moved (length s)] else rx) b [] [] s of
        Some (s', cp) \<Rightarrow>
          if length s' < length s
          then Mt (take (length s - length s') s, cp) # scan fl rx False False s'
          else if adv then []
          else Mt ([], cp) # scan fl rx b True s
      | None \<Rightarrow>
          (case s of
             [] \<Rightarrow> []
           | c # cs \<Rightarrow> Ch c # scan fl rx False False cs))"
  by pat_completeness auto
termination
  by (relation "measure (\<lambda>(fl, rx, b, adv, s). 2 * length s + (if adv then 0 else 1))") auto

text \<open>\<^verbatim>\<open>re.sub(pattern, repl, s)\<close> with a template or a function that cannot raise.\<close>

fun sub_toks :: "(mobj \<Rightarrow> string) \<Rightarrow> tok list \<Rightarrow> string" where
  "sub_toks f [] = []"
| "sub_toks f (Ch c # ts) = c # sub_toks f ts"
| "sub_toks f (Mt m # ts) = f m @ sub_toks f ts"

definition re_sub :: "flags \<Rightarrow> item list \<Rightarrow> (mobj \<Rightarrow> string) \<Rightarrow> string \<Rightarrow> string" where
  "re_sub fl rx f s = sub_toks f (scan fl rx True False s)"

text \<open>\<^verbatim>\<open>re.sub\<close> with a function that can raise: the first raise ends the call.\<close>

fun sub_toks_e :: "(mobj \<Rightarrow> error + string) \<Rightarrow> tok list \<Rightarrow> error + string" where
  "sub_toks_e f [] = Inr []"
| "sub_toks_e f (Ch c # ts) = bind_e (sub_toks_e f ts) (\<lambda>r. Inr (c # r))"
| "sub_toks_e f (Mt m # ts) =
     bind_e (f m) (\<lambda>x. bind_e (sub_toks_e f ts) (\<lambda>r. Inr (x @ r)))"

definition re_sub_e ::
  "flags \<Rightarrow> item list \<Rightarrow> (mobj \<Rightarrow> error + string) \<Rightarrow> string \<Rightarrow> error + string" where
  "re_sub_e fl rx f s = sub_toks_e f (scan fl rx True False s)"

text \<open>A template \<^verbatim>\<open>pre\1post\<close>; a group that took no part is the empty string.\<close>

definition template1 :: "string \<Rightarrow> string \<Rightarrow> mobj \<Rightarrow> string" where
  "template1 pre post m = pre @ (case group m 1 of None \<Rightarrow> [] | Some g \<Rightarrow> g) @ post"

text \<open>\<^verbatim>\<open>re.findall\<close> for a pattern with one group: the text of group 1 of every
  match, the empty string where the group took no part.\<close>

fun findall_toks :: "tok list \<Rightarrow> string list" where
  "findall_toks [] = []"
| "findall_toks (Ch c # ts) = findall_toks ts"
| "findall_toks (Mt m # ts) = (case group m 1 of None \<Rightarrow> [] | Some g \<Rightarrow> g) # findall_toks ts"

definition re_findall :: "flags \<Rightarrow> item list \<Rightarrow> string \<Rightarrow> string list" where
  "re_findall fl rx s = findall_toks (scan fl rx True False s)"

text \<open>\<^verbatim>\<open>re.split\<close>: the texts between the matches and, after each of them, the groups
  \<open>gs\<close> of the pattern (\<^verbatim>\<open>None\<close> for a group that took no part). \<open>cur\<close> is the text
  read since the last match.\<close>

fun split_toks :: "nat list \<Rightarrow> string \<Rightarrow> tok list \<Rightarrow> string option list" where
  "split_toks gs cur [] = [Some cur]"
| "split_toks gs cur (Ch c # ts) = split_toks gs (cur @ [c]) ts"
| "split_toks gs cur (Mt m # ts) = Some cur # map (group m) gs @ split_toks gs [] ts"

definition re_split :: "flags \<Rightarrow> item list \<Rightarrow> nat list \<Rightarrow> string \<Rightarrow> string option list" where
  "re_split fl rx gs s = split_toks gs [] (scan fl rx True False s)"

section \<open>The standard library\<close>

text \<open>
  \<^verbatim>\<open>html.unescape(s)\<close> returns \<open>s\<close> when it has no \<^verbatim>\<open>&\<close>, and otherwise replaces
  every character reference, found by the pattern
  \<^verbatim>\<open>&(#[0-9]+;?|#[xX][0-9a-fA-F]+;?|[^\t\n\f <&#;]{1,32};?)\<close>, by what the library's
  \<^verbatim>\<open>_replace_charref\<close> makes of it. That function is the parameter \<open>cr\<close> of the
  converter, from the text of group 1 to its replacement; it can raise.
\<close>

definition rx_charref :: "item list" where
  "rx_charref =
     lit ''&'' @ [Open 1,
       Alt (lit ''#'' @ [plus (Set [Between CHR ''0'' CHR ''9'']), opt (Lit CHR '';'')])
        [Alt (lit ''#'' @ [One (Set [Single CHR ''x'', Single CHR ''X'']),
                plus (Set [Between CHR ''0'' CHR ''9'', Between CHR ''a'' CHR ''f'',
                           Between CHR ''A'' CHR ''F'']),
                opt (Lit CHR '';'')])
          [Rep (NSet [Single (CHR 0x09), Single (CHR 0x0A), Single (CHR 0x0C), Single CHR '' '',
                      Single CHR ''<'', Single CHR ''&'', Single CHR ''#'', Single CHR '';''])
             1 (Some 32) True,
           opt (Lit CHR '';'')]],
       Close 1]"

definition unescape :: "(string \<Rightarrow> error + string) \<Rightarrow> string \<Rightarrow> error + string" where
  "unescape cr s =
     (if CHR ''&'' \<notin> set s then Inr s
      else re_sub_e F0 rx_charref (\<lambda>m. bind_e (as_str (group m 1)) cr) s)"




text \<open>
  \<^verbatim>\<open>Path(filename).stem\<close> on a POSIX path: the name is the last component that is
  neither empty nor \<^verbatim>\<open>.\<close>, and the stem is the name without its last suffix, where a
  dot at the start or at the end of the name begins no suffix.
\<close>

definition path_name :: "string \<Rightarrow> string" where
  "path_name f =
     (case filter (\<lambda>x. x \<noteq> [] \<and> x \<noteq> ''.'') (split_on CHR ''/'' f) of
        [] \<Rightarrow> []
      | x # xs \<Rightarrow> last (x # xs))"

definition path_stem :: "string \<Rightarrow> string" where
  "path_stem f =
     (let name = path_name f; i = rfind name ''.''
      in if 0 < i \<and> i < int (length name) - 1 then take (nat i) name else name)"

section \<open>The converter\<close>

text \<open>
  Every method of \<^verbatim>\<open>HtmlToMarkdownConverter\<close> is a function of the same name, and
  every pattern is the definition \<open>rx_...\<close> next to the function that uses it. The
  field \<^verbatim>\<open>current_file\<close> is written and never read.
\<close>

subsection \<open>Patterns shared by several stages\<close>

definition gt :: item where
  "gt = One (Lit CHR ''>'')"

text \<open>\<^verbatim>\<open><name[^>]*>(.*?)</name>\<close>\<close>

definition rx_elem :: "string \<Rightarrow> item list" where
  "rx_elem name =
     lit (''<'' @ name) @ [star (not_ch CHR ''>''), gt, Open 1, lazy Dot, Close 1]
       @ lit (''</'' @ name @ ''>'')"

text \<open>\<^verbatim>\<open><name>(.*?)</name>\<close>\<close>

definition rx_plain :: "string \<Rightarrow> item list" where
  "rx_plain name =
     lit (''<'' @ name @ ''>'') @ [Open 1, lazy Dot, Close 1] @ lit (''</'' @ name @ ''>'')"

text \<open>\<^verbatim>\<open><[^>]+>\<close>, and \<^verbatim>\<open>re.sub(r'<[^>]+>', '', s)\<close>\<close>

definition rx_tag :: "item list" where
  "rx_tag = lit ''<'' @ [plus (not_ch CHR ''>''), gt]"

definition strip_tags :: "string \<Rightarrow> string" where
  "strip_tags s = re_sub F0 rx_tag (\<lambda>m. []) s"

subsection \<open>\<^verbatim>\<open>_extract_main_content\<close>\<close>

definition extract_main_content :: "string \<Rightarrow> error + string" where
  "extract_main_content html_content =
     (case re_search DOTALL (rx_elem ''main'') html_content of
        Some main_match \<Rightarrow> as_str (group main_match 1)
      | None \<Rightarrow>
          (case re_search DOTALL (rx_elem ''body'') html_content of
             Some body_match \<Rightarrow> as_str (group body_match 1)
           | None \<Rightarrow> Inr html_content))"

subsection \<open>\<^verbatim>\<open>_remove_hidden_elements\<close>\<close>

text \<open>\<^verbatim>\<open><div[^>]*(?:aria-hidden="true"|hidden="true")[^>]*>.*?</div>\<close>\<close>

definition rx_hidden_div :: "item list" where
  "rx_hidden_div =
     lit ''<div'' @ [star (not_ch CHR ''>''),
                     Alt (lit ''aria-hidden=\"true\"'') (lit ''hidden=\"true\"''),
                     star (not_ch CHR ''>''), gt, lazy Dot]
       @ lit ''</div>''"

text \<open>\<^verbatim>\<open><button[^>]*class="copy"[^>]*>.*?</button>\<close>\<close>

definition rx_copy_button :: "item list" where
  "rx_copy_button =
     lit ''<button'' @ [star (not_ch CHR ''>'')] @ lit ''class=\"copy\"''
       @ [star (not_ch CHR ''>''), gt, lazy Dot] @ lit ''</button>''"

text \<open>\<^verbatim>\<open><a[^>]*class="header-anchor"[^>]*>.*?</a>\<close>\<close>

definition rx_header_anchor :: "item list" where
  "rx_header_anchor =
     lit ''<a'' @ [star (not_ch CHR ''>'')] @ lit ''class=\"header-anchor\"''
       @ [star (not_ch CHR ''>''), gt, lazy Dot] @ lit ''</a>''"

definition remove_hidden_elements :: "string \<Rightarrow> string" where
  "remove_hidden_elements content =
     (let content = re_sub DOTALL_IGNORECASE rx_hidden_div (\<lambda>m. []) content;
          content = re_sub DOTALL rx_copy_button (\<lambda>m. []) content;
          content = re_sub DOTALL rx_header_anchor (\<lambda>m. []) content
      in content)"

subsection \<open>\<^verbatim>\<open>_convert_code_blocks\<close>\<close>

text \<open>
  \<^verbatim>\<open>extract_text_from_spans\<close>: the loop over the index \<open>i\<close> is a recursion over the
  text from \<open>i\<close> on. At a \<^verbatim>\<open><\<close> it jumps behind the next \<^verbatim>\<open>>\<close>, and stops where
  there is none; elsewhere it keeps the text up to the next \<^verbatim>\<open><\<close>.
\<close>

function extract_text_from_spans :: "string \<Rightarrow> string" where
  "extract_text_from_spans [] = []"
| "extract_text_from_spans (c # cs) =
     (if c = CHR ''<'' then
        (if CHR ''>'' \<in> set cs
         then extract_text_from_spans (tl (dropWhile (\<lambda>x. x \<noteq> CHR ''>'') cs))
         else [])
      else c # takeWhile (\<lambda>x. x \<noteq> CHR ''<'') cs
             @ extract_text_from_spans (dropWhile (\<lambda>x. x \<noteq> CHR ''<'') cs))"
  by pat_completeness auto
termination
proof (relation "measure length")
  fix c :: char and cs :: string
  have "length (dropWhile (\<lambda>x. x \<noteq> CHR ''>'') cs) \<le> length cs"
    by (rule length_dropWhile_le)
  then show "(tl (dropWhile (\<lambda>x. x \<noteq> CHR ''>'') cs), c # cs) \<in> measure length"
    by simp
  have "length (dropWhile (\<lambda>x. x \<noteq> CHR ''<'') cs) \<le> length cs"
    by (rule length_dropWhile_le)
  then show "(dropWhile (\<lambda>x. x \<noteq> CHR ''<'') cs, c # cs) \<in> measure length"
    by simp
qed simp

text \<open>\<^verbatim>\<open>class="language-([^"\s]+)\<close>\<close>

definition rx_language_class :: "item list" where
  "rx_language_class =
     lit ''class=\"language-'' @ [Open 1, plus (NSet [Single (CHR 0x22), Space]), Close 1]"

text \<open>\<^verbatim>\<open><span class="lang">([^<]+)</span>\<close>\<close>

definition rx_span_lang :: "item list" where
  "rx_span_lang =
     lit ''<span class=\"lang\">'' @ [Open 1, plus (not_ch CHR ''<''), Close 1] @ lit ''</span>''"

text \<open>\<^verbatim>\<open><span class="line[^"]*"[^>]*>\<close>\<close>

definition rx_line_open :: "item list" where
  "rx_line_open =
     lit ''<span class=\"line'' @ [star (not_ch (CHR 0x22)), One (Lit (CHR 0x22)),
                                  star (not_ch CHR ''>''), gt]"

text \<open>\<^verbatim>\<open><span class="line[^"]*"[^>]*>(.*?)</span>(?=\s*<span class="line|$)\<close>\<close>

definition rx_line :: "item list" where
  "rx_line =
     rx_line_open @ [Open 1, lazy Dot, Close 1] @ lit ''</span>''
       @ [Ahead [Alt (star (Set [Space]) # lit ''<span class=\"line'') [Eol]]]"

text \<open>\<^verbatim>\<open><div class="language-[^"]*[^>]*>.*?<pre[^>]*>.*?</pre>\s*</div>\<close>\<close>

definition rx_code_block :: "item list" where
  "rx_code_block =
     lit ''<div class=\"language-'' @ [star (not_ch (CHR 0x22)), star (not_ch CHR ''>''), gt,
                                      lazy Dot]
       @ lit ''<pre'' @ [star (not_ch CHR ''>''), gt, lazy Dot]
       @ lit ''</pre>'' @ [star (Set [Space])] @ lit ''</div>''"

text \<open>\<^verbatim>\<open><pre[^>]*>\s*<code[^>]*>(.*?)</code>\s*</pre>\<close>\<close>

definition rx_pre_code :: "item list" where
  "rx_pre_code =
     lit ''<pre'' @ [star (not_ch CHR ''>''), gt, star (Set [Space])]
       @ lit ''<code'' @ [star (not_ch CHR ''>''), gt, Open 1, lazy Dot, Close 1]
       @ lit ''</code>'' @ [star (Set [Space])] @ lit ''</pre>''"

definition clean_line :: "(string \<Rightarrow> error + string) \<Rightarrow> string \<Rightarrow> error + string" where
  "clean_line cr line = unescape cr (extract_text_from_spans line)"

text \<open>The body of the loop over \<^verbatim>\<open>line_parts[1:]\<close>.\<close>

definition clean_part :: "(string \<Rightarrow> error + string) \<Rightarrow> string \<Rightarrow> error + string" where
  "clean_part cr part =
     (let end_idx = rfind part ''</span>'';
          line_content = (if end_idx > 0 then take (nat end_idx) part else part)
      in clean_line cr line_content)"

definition extract_code_from_pre :: "(string \<Rightarrow> error + string) \<Rightarrow> mobj \<Rightarrow> error + string" where
  "extract_code_from_pre cr match =
     bind_e (as_str (group match 0)) (\<lambda>full_block.
     bind_e (case re_search F0 rx_language_class full_block of
               Some lang_match \<Rightarrow> as_str (group lang_match 1)
             | None \<Rightarrow> Inr []) (\<lambda>language.
     bind_e (if language = [] then
               (case re_search F0 rx_span_lang full_block of
                  Some span_lang \<Rightarrow> as_str (group span_lang 1)
                | None \<Rightarrow> Inr language)
             else Inr language) (\<lambda>language.
     case re_search DOTALL (rx_elem ''code'') full_block of
       None \<Rightarrow> Inr full_block
     | Some code_match \<Rightarrow>
         bind_e (as_str (group code_match 1)) (\<lambda>code_content.
         let lines = re_findall DOTALL rx_line code_content in
         bind_e (if lines \<noteq> []
                 then bind_e (map_e (clean_line cr) lines) (\<lambda>clean_lines.
                      Inr (join ''\<newline>'' clean_lines))
                 else
                   bind_e (all_str (re_split F0 rx_line_open [] code_content)) (\<lambda>line_parts.
                   if length line_parts > 1
                   then bind_e (map_e (clean_part cr) (tl line_parts)) (\<lambda>clean_lines.
                        Inr (join ''\<newline>'' clean_lines))
                   else unescape cr (strip_tags code_content))) (\<lambda>code_text.
         Inr (''\<newline>```'' @ language @ ''\<newline>'' @ strip code_text @ ''\<newline>```\<newline>''))))))"

definition convert_code_blocks :: "(string \<Rightarrow> error + string) \<Rightarrow> string \<Rightarrow> error + string" where
  "convert_code_blocks cr content =
     bind_e (re_sub_e DOTALL rx_code_block (extract_code_from_pre cr) content) (\<lambda>content.
     re_sub_e DOTALL rx_pre_code
       (\<lambda>m. bind_e (as_str (group m 1)) (\<lambda>g.
            bind_e (unescape cr (strip_tags g)) (\<lambda>code.
              Inr (''\<newline>```\<newline>'' @ code @ ''\<newline>```\<newline>''))))
       content)"

subsection \<open>\<^verbatim>\<open>_convert_inline_code\<close>\<close>

definition convert_code :: "(string \<Rightarrow> error + string) \<Rightarrow> mobj \<Rightarrow> error + string" where
  "convert_code cr match =
     bind_e (as_str (group match 1)) (\<lambda>code_text.
     let code_text = strip_tags code_text
     in bind_e (unescape cr code_text) (\<lambda>code_text.
        Inr (''`'' @ code_text @ ''`'')))"

definition convert_inline_code :: "(string \<Rightarrow> error + string) \<Rightarrow> string \<Rightarrow> error + string" where
  "convert_inline_code cr content = re_sub_e DOTALL (rx_elem ''code'') (convert_code cr) content"

subsection \<open>\<^verbatim>\<open>_convert_headers\<close>\<close>

text \<open>\<^verbatim>\<open><h([1-6])[^>]*>(.*?)</h\1>\<close>\<close>

definition rx_header :: "item list" where
  "rx_header =
     lit ''<h'' @ [Open 1, One (Set [Between CHR ''1'' CHR ''6'']), Close 1,
                   star (not_ch CHR ''>''), gt, Open 2, lazy Dot, Close 2]
       @ lit ''</h'' @ [Back 1, gt]"

definition convert_header :: "(string \<Rightarrow> error + string) \<Rightarrow> mobj \<Rightarrow> error + string" where
  "convert_header cr match =
     bind_e (as_str (group match 1)) (\<lambda>g1.
     bind_e (py_int g1) (\<lambda>level.
     if level = 1 then Inr []
     else
       bind_e (as_str (group match 2)) (\<lambda>header_content.
       let header_text = strip_tags header_content
       in bind_e (unescape cr header_text) (\<lambda>unescaped.
          let header_text = strip unescaped;
              header_text = strip (replace zwsp [] header_text)
          in if header_text = [] then Inr []
             else Inr (''\<newline>'' @ replicate level CHR ''#'' @ '' '' @ header_text @ ''\<newline>'')))))"

definition convert_headers :: "(string \<Rightarrow> error + string) \<Rightarrow> string \<Rightarrow> error + string" where
  "convert_headers cr content = re_sub_e DOTALL rx_header (convert_header cr) content"

subsection \<open>\<^verbatim>\<open>_convert_custom_blocks\<close>\<close>

text \<open>\<^verbatim>\<open><p[^>]*class="custom-block-title"[^>]*>.*?</p>\<close>\<close>

definition rx_block_title :: "item list" where
  "rx_block_title =
     lit ''<p'' @ [star (not_ch CHR ''>'')] @ lit ''class=\"custom-block-title\"''
       @ [star (not_ch CHR ''>''), gt, lazy Dot] @ lit ''</p>''"

text \<open>\<^verbatim>\<open>href="([^"]+)"\<close>\<close>

definition rx_href :: "item list" where
  "rx_href = lit ''href=\"'' @ [Open 1, plus (not_ch (CHR 0x22)), Close 1, One (Lit (CHR 0x22))]"

text \<open>\<^verbatim>\<open><div class="[^"]*custom-block[^"]*"[^>]*>.*?</div>\<close>\<close>

definition rx_custom_block :: "item list" where
  "rx_custom_block =
     lit ''<div class=\"'' @ [star (not_ch (CHR 0x22))] @ lit ''custom-block''
       @ [star (not_ch (CHR 0x22)), One (Lit (CHR 0x22)), star (not_ch CHR ''>''), gt, lazy Dot]
       @ lit ''</div>''"

definition convert_inner_link :: "mobj \<Rightarrow> error + string" where
  "convert_inner_link link_match =
     bind_e (as_str (group link_match 0)) (\<lambda>g0.
     let href = re_search F0 rx_href g0 in
     bind_e (as_str (group link_match 1)) (\<lambda>g1.
     let link_text = strip_tags g1 in
     case href of
       Some h \<Rightarrow> bind_e (as_str (group h 1)) (\<lambda>target.
                   Inr (''['' @ link_text @ '']('' @ target @ '')''))
     | None \<Rightarrow> Inr link_text))"

definition block_type :: "string \<Rightarrow> string" where
  "block_type full_block =
     (if contains (lower full_block) ''warning'' then ''WARNING''
      else if contains (lower full_block) ''danger'' then ''DANGER''
      else if contains (lower full_block) ''tip'' then ''TIP''
      else if contains (lower full_block) ''info'' then ''INFO''
      else ''NOTE'')"

definition convert_block :: "(string \<Rightarrow> error + string) \<Rightarrow> mobj \<Rightarrow> error + string" where
  "convert_block cr match =
     bind_e (as_str (group match 0)) (\<lambda>full_block.
     let block_content = re_sub DOTALL rx_block_title (\<lambda>m. []) full_block;
         paragraphs = re_findall DOTALL (rx_elem ''p'') block_content;
         text_content = join '' '' paragraphs
     in bind_e (re_sub_e DOTALL (rx_elem ''a'') convert_inner_link text_content) (\<lambda>text_content.
        let text_content = strip_tags text_content
        in bind_e (unescape cr text_content) (\<lambda>unescaped.
           let text_content = strip unescaped
           in Inr (''\<newline>> **'' @ block_type full_block @ '':** '' @ text_content
                    @ ''\<newline>''))))"

definition convert_custom_blocks :: "(string \<Rightarrow> error + string) \<Rightarrow> string \<Rightarrow> error + string" where
  "convert_custom_blocks cr content =
     re_sub_e DOTALL rx_custom_block (convert_block cr) content"

subsection \<open>\<^verbatim>\<open>_convert_tables\<close>\<close>

text \<open>\<^verbatim>\<open><table[^>]*>.*?</table>\<close>\<close>

definition rx_table :: "item list" where
  "rx_table = lit ''<table'' @ [star (not_ch CHR ''>''), gt, lazy Dot] @ lit ''</table>''"

text \<open>\<^verbatim>\<open>html.unescape(re.sub(r'<[^>]+>', '', c)).strip()\<close>\<close>

definition clean_cell :: "(string \<Rightarrow> error + string) \<Rightarrow> string \<Rightarrow> error + string" where
  "clean_cell cr c = bind_e (unescape cr (strip_tags c)) (\<lambda>u. Inr (strip u))"

text \<open>The row after \<^verbatim>\<open>while len(row) < len(headers): row.append('')\<close>.\<close>

definition pad_row :: "string list \<Rightarrow> string list \<Rightarrow> string list" where
  "pad_row headers row = row @ replicate (length headers - length row) []"

definition md_row :: "string list \<Rightarrow> string" where
  "md_row cells = ''| '' @ join '' | '' cells @ '' |''"

text \<open>The list \<^verbatim>\<open>md_lines\<close> of a table with these headers and rows.\<close>

definition md_lines :: "string list \<Rightarrow> string list list \<Rightarrow> string list" where
  "md_lines headers rows =
     (if headers \<noteq> []
      then [md_row headers, md_row (replicate (length headers) ''---'')]
      else [])
     @ map (\<lambda>row. md_row (pad_row headers row)) rows"

definition table_headers :: "(string \<Rightarrow> error + string) \<Rightarrow> string \<Rightarrow> error + string list" where
  "table_headers cr table_html =
     (case re_search DOTALL (rx_plain ''thead'') table_html of
        None \<Rightarrow> Inr []
      | Some header_match \<Rightarrow>
          bind_e (as_str (group header_match 1)) (\<lambda>g.
          map_e (clean_cell cr) (re_findall DOTALL (rx_elem ''th'') g)))"

definition table_rows :: "(string \<Rightarrow> error + string) \<Rightarrow> string \<Rightarrow> error + string list list" where
  "table_rows cr table_html =
     (case re_search DOTALL (rx_plain ''tbody'') table_html of
        None \<Rightarrow> Inr []
      | Some body_match \<Rightarrow>
          bind_e (as_str (group body_match 1)) (\<lambda>g.
          map_e (\<lambda>row. map_e (clean_cell cr) (re_findall DOTALL (rx_elem ''td'') row))
            (re_findall DOTALL (rx_elem ''tr'') g)))"

definition convert_table :: "(string \<Rightarrow> error + string) \<Rightarrow> mobj \<Rightarrow> error + string" where
  "convert_table cr match =
     bind_e (as_str (group match 0)) (\<lambda>table_html.
     bind_e (table_headers cr table_html) (\<lambda>headers.
     bind_e (table_rows cr table_html) (\<lambda>rows.
     if headers = [] \<and> rows = [] then Inr []
     else Inr (''\<newline>'' @ join ''\<newline>'' (md_lines headers rows) @ ''\<newline>''))))"

definition convert_tables :: "(string \<Rightarrow> error + string) \<Rightarrow> string \<Rightarrow> error + string" where
  "convert_tables cr content = re_sub_e DOTALL rx_table (convert_table cr) content"

subsection \<open>\<^verbatim>\<open>_convert_images\<close>\<close>

text \<open>\<^verbatim>\<open>src="([^"]+)"\<close>, \<^verbatim>\<open>alt="([^"]*)"\<close> and \<^verbatim>\<open><img[^>]+/?>\<close>\<close>

definition rx_src :: "item list" where
  "rx_src = lit ''src=\"'' @ [Open 1, plus (not_ch (CHR 0x22)), Close 1, One (Lit (CHR 0x22))]"

definition rx_alt :: "item list" where
  "rx_alt = lit ''alt=\"'' @ [Open 1, star (not_ch (CHR 0x22)), Close 1, One (Lit (CHR 0x22))]"

definition rx_img :: "item list" where
  "rx_img = lit ''<img'' @ [plus (not_ch CHR ''>''), opt (Lit CHR ''/''), gt]"

definition convert_image :: "mobj \<Rightarrow> error + string" where
  "convert_image match =
     bind_e (as_str (group match 0)) (\<lambda>img_tag.
     bind_e (case re_search F0 rx_src img_tag of
               Some src_match \<Rightarrow> as_str (group src_match 1)
             | None \<Rightarrow> Inr []) (\<lambda>src.
     bind_e (case re_search F0 rx_alt img_tag of
               Some alt_match \<Rightarrow> as_str (group alt_match 1)
             | None \<Rightarrow> Inr ''image'') (\<lambda>alt.
     if src = [] then Inr []
     else Inr (''\<newline>!['' @ alt @ '']('' @ src @ '')\<newline>''))))"

definition convert_images :: "string \<Rightarrow> error + string" where
  "convert_images content = re_sub_e IGNORECASE rx_img convert_image content"

subsection \<open>\<^verbatim>\<open>_convert_links\<close>\<close>

text \<open>\<^verbatim>\<open><a([^>]*)>(.*?)</a>\<close>\<close>

definition rx_link :: "item list" where
  "rx_link =
     lit ''<a'' @ [Open 1, star (not_ch CHR ''>''), Close 1, gt, Open 2, lazy Dot, Close 2]
       @ lit ''</a>''"

definition convert_link :: "(string \<Rightarrow> error + string) \<Rightarrow> mobj \<Rightarrow> error + string" where
  "convert_link cr match =
     bind_e (as_str (group match 0)) (\<lambda>full_tag.
     bind_e (as_str (group match 2)) (\<lambda>link_text.
     bind_e (case re_search F0 rx_href full_tag of
               Some href_match \<Rightarrow> as_str (group href_match 1)
             | None \<Rightarrow> Inr []) (\<lambda>href.
     let link_text = strip_tags link_text
     in bind_e (unescape cr link_text) (\<lambda>unescaped.
        let link_text = strip unescaped
        in if link_text = [] \<or> href = [] then Inr (if link_text \<noteq> [] then link_text else [])
           else if startswith href ''#'' then Inr link_text
           else Inr (''['' @ link_text @ '']('' @ href @ '')'')))))"

definition convert_links :: "(string \<Rightarrow> error + string) \<Rightarrow> string \<Rightarrow> error + string" where
  "convert_links cr content = re_sub_e DOTALL rx_link (convert_link cr) content"

subsection \<open>\<^verbatim>\<open>_convert_lists\<close>\<close>

text \<open>\<^verbatim>\<open>str(i)\<close> for the index of a list item.\<close>

function show_nat :: "nat \<Rightarrow> string" where
  "show_nat n =
     (if n < 10 then [char_of (48 + n)]
      else show_nat (n div 10) @ [char_of (48 + n mod 10)])"
  by pat_completeness auto
termination
  by (relation "measure id") auto

definition clean_item :: "(string \<Rightarrow> error + string) \<Rightarrow> string \<Rightarrow> error + string" where
  "clean_item cr item = bind_e (unescape cr (strip_tags item)) (\<lambda>u. Inr (strip u))"

definition convert_ul :: "(string \<Rightarrow> error + string) \<Rightarrow> mobj \<Rightarrow> error + string" where
  "convert_ul cr match =
     bind_e (as_str (group match 1)) (\<lambda>list_content.
     let items = re_findall DOTALL (rx_elem ''li'') list_content
     in bind_e (map_e (\<lambda>item. bind_e (clean_item cr item) (\<lambda>item_text.
                         Inr (''- '' @ item_text))) items) (\<lambda>md_items.
        Inr (''\<newline>'' @ join ''\<newline>'' md_items @ ''\<newline>'')))"

definition convert_ol :: "(string \<Rightarrow> error + string) \<Rightarrow> mobj \<Rightarrow> error + string" where
  "convert_ol cr match =
     bind_e (as_str (group match 1)) (\<lambda>list_content.
     let items = re_findall DOTALL (rx_elem ''li'') list_content
     in bind_e (map_e (\<lambda>(i, item). bind_e (clean_item cr item) (\<lambda>item_text.
                         Inr (show_nat i @ ''. '' @ item_text)))
                  (zip [1 ..< Suc (length items)] items)) (\<lambda>md_items.
        Inr (''\<newline>'' @ join ''\<newline>'' md_items @ ''\<newline>'')))"

definition convert_lists :: "(string \<Rightarrow> error + string) \<Rightarrow> string \<Rightarrow> error + string" where
  "convert_lists cr content =
     bind_e (re_sub_e DOTALL (rx_elem ''ul'') (convert_ul cr) content) (\<lambda>content.
     re_sub_e DOTALL (rx_elem ''ol'') (convert_ol cr) content)"

subsection \<open>\<^verbatim>\<open>_convert_paragraphs\<close>\<close>

definition convert_p :: "(string \<Rightarrow> error + string) \<Rightarrow> mobj \<Rightarrow> error + string" where
  "convert_p cr match =
     bind_e (as_str (group match 1)) (\<lambda>p_content.
     if contains p_content ''```'' then Inr p_content
     else
       let text = strip_tags p_content
       in bind_e (unescape cr text) (\<lambda>unescaped.
          let text = strip unescaped
          in if text \<noteq> [] then Inr (''\<newline>'' @ text @ ''\<newline>'') else Inr []))"

definition convert_paragraphs :: "(string \<Rightarrow> error + string) \<Rightarrow> string \<Rightarrow> error + string" where
  "convert_paragraphs cr content = re_sub_e DOTALL (rx_elem ''p'') (convert_p cr) content"

subsection \<open>\<^verbatim>\<open>_convert_text_formatting\<close>\<close>

definition convert_text_formatting :: "string \<Rightarrow> string" where
  "convert_text_formatting content =
     (let content = re_sub DOTALL (rx_plain ''strong'') (template1 ''**'' ''**'') content;
          content = re_sub DOTALL (rx_plain ''b'') (template1 ''**'' ''**'') content;
          content = re_sub DOTALL (rx_plain ''em'') (template1 ''*'' ''*'') content;
          content = re_sub DOTALL (rx_plain ''i'') (template1 ''*'' ''*'') content;
          content = re_sub DOTALL (rx_plain ''del'') (template1 ''~~'' ''~~'') content;
          content = re_sub DOTALL (rx_plain ''s'') (template1 ''~~'' ''~~'') content
      in content)"

subsection \<open>\<^verbatim>\<open>_clean_html_entities\<close>\<close>

definition clean_html_entities :: "(string \<Rightarrow> error + string) \<Rightarrow> string \<Rightarrow> error + string" where
  "clean_html_entities cr content =
     bind_e (unescape cr content) (\<lambda>content.
     let content = replace zwsp [] content;
         content = replace zwsp [] content
     in Inr content)"

subsection \<open>\<^verbatim>\<open>_cleanup_whitespace\<close>\<close>

text \<open>\<^verbatim>\<open>(```[\s\S]*?```)\<close> and \<^verbatim>\<open>\n{3,}\<close>\<close>

definition rx_fence :: "item list" where
  "rx_fence = [Open 1] @ lit ''```'' @ [lazy (Set [Space, NonSpace])] @ lit ''```'' @ [Close 1]"

definition rx_newlines :: "item list" where
  "rx_newlines = [Rep (Lit (CHR 0x0A)) 3 None True]"

definition collapse_newlines :: "string \<Rightarrow> string" where
  "collapse_newlines s = re_sub F0 rx_newlines (\<lambda>m. ''\<newline>\<newline>'') s"

text \<open>The body of the loop over \<^verbatim>\<open>parts\<close>.\<close>

definition clean_part_ws :: "string \<Rightarrow> string" where
  "clean_part_ws part =
     (if startswith part ''```'' then part
      else
        let part = strip_tags part;
            part = collapse_newlines part;
            lines = map strip (split_on (CHR 0x0A) part)
        in join ''\<newline>'' lines)"

definition cleanup_whitespace :: "string \<Rightarrow> error + string" where
  "cleanup_whitespace content =
     bind_e (all_str (re_split F0 rx_fence [1] content)) (\<lambda>parts.
     let cleaned_parts = map clean_part_ws parts;
         content = concat cleaned_parts;
         content = collapse_newlines content
     in Inr (strip content))"

subsection \<open>\<^verbatim>\<open>_generate_title\<close>\<close>

text \<open>\<^verbatim>\<open>^api reference \<close>\<close>

definition rx_api_reference :: "item list" where
  "rx_api_reference = Bol # lit ''api reference ''"

definition title_word :: "string \<Rightarrow> string" where
  "title_word word =
     (if lower word \<in> set [''api'', ''pdf'', ''svg'', ''html'', ''css'']
      then upper word else capitalize word)"

definition generate_title :: "string \<Rightarrow> string" where
  "generate_title filename =
     (let name = path_stem filename;
          name = replace ''-'' '' '' (replace ''_'' '' '' name);
          name = re_sub IGNORECASE rx_api_reference (\<lambda>m. ''API Reference: '') name;
          words = split_ws name;
          title_words = map title_word words
      in join '' '' title_words)"

subsection \<open>\<^verbatim>\<open>convert_file\<close>\<close>

definition convert_file :: "(string \<Rightarrow> error + string) \<Rightarrow> string \<Rightarrow> string \<Rightarrow> error + string" where
  "convert_file cr html_content filename =
     bind_e (extract_main_content html_content) (\<lambda>content.
     let content = remove_hidden_elements content in
     bind_e (convert_code_blocks cr content) (\<lambda>content.
     bind_e (convert_inline_code cr content) (\<lambda>content.
     bind_e (convert_headers cr content) (\<lambda>content.
     bind_e (convert_custom_blocks cr content) (\<lambda>content.
     bind_e (convert_tables cr content) (\<lambda>content.
     bind_e (convert_images content) (\<lambda>content.
     bind_e (convert_links cr content) (\<lambda>content.
     bind_e (convert_lists cr content) (\<lambda>content.
     bind_e (convert_paragraphs cr content) (\<lambda>content.
     let content = convert_text_formatting content in
     bind_e (clean_html_entities cr content) (\<lambda>content.
     bind_e (cleanup_whitespace content) (\<lambda>content.
     let title = generate_title filename
     in Inr (''# '' @ title @ ''\<newline>\<newline>'' @ content)))))))))))))"

section \<open>Notions used in the proofs\<close>


declare scan.simps [simp del]



section \<open>The worked example of the specification\<close>

text \<open>The stages of \<^verbatim>\<open>convert_file\<close> on the example, one after the other.\<close>

lemma setup_stage1:
  "extract_main_content ''<h2>Setup</h2><p>Install it.</p><div class=\"language-csharp\"><pre><code><span class=\"line\">foo();</span>\<newline><span class=\"line\">bar();</span></code></pre></div>''
   = Inr ''<h2>Setup</h2><p>Install it.</p><div class=\"language-csharp\"><pre><code><span class=\"line\">foo();</span>\<newline><span class=\"line\">bar();</span></code></pre></div>''"
  by code_simp

lemma setup_stage2:
  "remove_hidden_elements ''<h2>Setup</h2><p>Install it.</p><div class=\"language-csharp\"><pre><code><span class=\"line\">foo();</span>\<newline><span class=\"line\">bar();</span></code></pre></div>''
   = ''<h2>Setup</h2><p>Install it.</p><div class=\"language-csharp\"><pre><code><span class=\"line\">foo();</span>\<newline><span class=\"line\">bar();</span></code></pre></div>''"
  by code_simp

lemma setup_stage3:
  "convert_code_blocks cr ''<h2>Setup</h2><p>Install it.</p><div class=\"language-csharp\"><pre><code><span class=\"line\">foo();</span>\<newline><span class=\"line\">bar();</span></code></pre></div>''
   = Inr ''<h2>Setup</h2><p>Install it.</p>\<newline>```csharp\<newline>foo();\<newline>bar();\<newline>```\<newline>''"
  by code_simp

lemma setup_stage4:
  "convert_inline_code cr ''<h2>Setup</h2><p>Install it.</p>\<newline>```csharp\<newline>foo();\<newline>bar();\<newline>```\<newline>''
   = Inr ''<h2>Setup</h2><p>Install it.</p>\<newline>```csharp\<newline>foo();\<newline>bar();\<newline>```\<newline>''"
  by code_simp

lemma setup_stage5:
  "convert_headers cr ''<h2>Setup</h2><p>Install it.</p>\<newline>```csharp\<newline>foo();\<newline>bar();\<newline>```\<newline>''
   = Inr ''\<newline>## Setup\<newline><p>Install it.</p>\<newline>```csharp\<newline>foo();\<newline>bar();\<newline>```\<newline>''"
  by code_simp

lemma setup_stage6:
  "convert_custom_blocks cr ''\<newline>## Setup\<newline><p>Install it.</p>\<newline>```csharp\<newline>foo();\<newline>bar();\<newline>```\<newline>''
   = Inr ''\<newline>## Setup\<newline><p>Install it.</p>\<newline>```csharp\<newline>foo();\<newline>bar();\<newline>```\<newline>''"
  by code_simp

lemma setup_stage7:
  "convert_tables cr ''\<newline>## Setup\<newline><p>Install it.</p>\<newline>```csharp\<newline>foo();\<newline>bar();\<newline>```\<newline>''
   = Inr ''\<newline>## Setup\<newline><p>Install it.</p>\<newline>```csharp\<newline>foo();\<newline>bar();\<newline>```\<newline>''"
  by code_simp

lemma setup_stage8:
  "convert_images ''\<newline>## Setup\<newline><p>Install it.</p>\<newline>```csharp\<newline>foo();\<newline>bar();\<newline>```\<newline>''
   = Inr ''\<newline>## Setup\<newline><p>Install it.</p>\<newline>```csharp\<newline>foo();\<newline>bar();\<newline>```\<newline>''"
  by code_simp

lemma setup_stage9:
  "convert_links cr ''\<newline>## Setup\<newline><p>Install it.</p>\<newline>```csharp\<newline>foo();\<newline>bar();\<newline>```\<newline>''
   = Inr ''\<newline>## Setup\<newline><p>Install it.</p>\<newline>```csharp\<newline>foo();\<newline>bar();\<newline>```\<newline>''"
  by code_simp

lemma setup_stage10:
  "convert_lists cr ''\<newline>## Setup\<newline><p>Install it.</p>\<newline>```csharp\<newline>foo();\<newline>bar();\<newline>```\<newline>''
   = Inr ''\<newline>## Setup\<newline><p>Install it.</p>\<newline>```csharp\<newline>foo();\<newline>bar();\<newline>```\<newline>''"
  by code_simp

lemma setup_stage11:
  "convert_paragraphs cr ''\<newline>## Setup\<newline><p>Install it.</p>\<newline>```csharp\<newline>foo();\<newline>bar();\<newline>```\<newline>''
   = Inr ''\<newline>## Setup\<newline>\<newline>Install it.\<newline>\<newline>```csharp\<newline>foo();\<newline>bar();\<newline>```\<newline>''"
  by code_simp

lemma setup_stage12:
  "convert_text_formatting ''\<newline>## Setup\<newline>\<newline>Install it.\<newline>\<newline>```csharp\<newline>foo();\<newline>bar();\<newline>```\<newline>''
   = ''\<newline>## Setup\<newline>\<newline>Install it.\<newline>\<newline>```csharp\<newline>foo();\<newline>bar();\<newline>```\<newline>''"
  by code_simp

lemma setup_stage13:
  "clean_html_entities cr ''\<newline>## Setup\<newline>\<newline>Install it.\<newline>\<newline>```csharp\<newline>foo();\<newline>bar();\<newline>```\<newline>''
   = Inr ''\<newline>## Setup\<newline>\<newline>Install it.\<newline>\<newline>```csharp\<newline>foo();\<newline>bar();\<newline>```\<newline>''"
  by code_simp

lemma setup_stage14:
  "cleanup_whitespace ''\<newline>## Setup\<newline>\<newline>Install it.\<newline>\<newline>```csharp\<newline>foo();\<newline>bar();\<newline>```\<newline>''
   = Inr ''## Setup\<newline>\<newline>Install it.\<newline>\<newline>```csharp\<newline>foo();\<newline>bar();\<newline>```''"
  by code_simp

lemma setup_title: "generate_title ''setup.html'' = ''Setup''"
  by code_simp

text \<open>
  Claim C9. The page with the heading \<^verbatim>\<open><h2>Setup</h2>\<close>, the paragraph
  \<^verbatim>\<open><p>Install it.</p>\<close> and a highlighted block tagged \<^verbatim>\<open>language-csharp\<close> with
  the two line-spans \<^verbatim>\<open>foo();\<close> and \<^verbatim>\<open>bar();\<close>, converted under the name
  \<^verbatim>\<open>setup.html\<close>, is the title \<^verbatim>\<open># Setup\<close>, a blank line, \<^verbatim>\<open>## Setup\<close>, a blank
  line, \<^verbatim>\<open>Install it.\<close>, a blank line and the fence \<^verbatim>\<open>```csharp\<close> with the two lines.
  It holds whatever the table of character references is.
\<close>

theorem setup_end_to_end:
  "convert_file cr
     ''<h2>Setup</h2><p>Install it.</p><div class=\"language-csharp\"><pre><code><span class=\"line\">foo();</span>\<newline><span class=\"line\">bar();</span></code></pre></div>''
     ''setup.html''
   = Inr ''# Setup\<newline>\<newline>## Setup\<newline>\<newline>Install it.\<newline>\<newline>```csharp\<newline>foo();\<newline>bar();\<newline>```''"
  unfolding convert_file_def setup_stage1 bind_e_def sum.case Let_def setup_stage2
    setup_stage3 setup_stage4 setup_stage5 setup_stage6 setup_stage7 setup_stage8 setup_stage9
    setup_stage10 setup_stage11 setup_stage12 setup_stage13 setup_stage14 setup_title
  by simp

section \<open>Whitespace cleanup and fenced code\<close>

text \<open>
  Claim C7. The cleanup splits the text at the fences and keeps each fence as it is, as
  its docstring promises; the collapse of three or more newlines that follows is applied
  to the text put together again, fences included. A fence whose code has two blank
  lines in a row comes out with one.
\<close>

theorem cleanup_whitespace_changes_fence:
  "cleanup_whitespace ''```\<newline>a\<newline>\<newline>\<newline>b\<newline>```''
   = Inr ''```\<newline>a\<newline>\<newline>b\<newline>```''"
  by code_simp

section \<open>Capture groups and totality\<close>






lemma isl_bind_e [simp]: "isl (bind_e x f) = (isl x \<or> isl (f (projr x)))"
  by (cases x) (auto simp: bind_e_def)

lemma isl_as_str [simp]: "isl (as_str x) = (x = None)"
  by (cases x) (auto simp: as_str_def)

lemma group_0 [simp]: "group m 0 = Some (fst m)"
  by (simp add: group_def)



















































text \<open>The shape of the result: an error of the stages, the same for every source name, or
  the title line of the source name before a body that does not depend on it.\<close>

lemma bind_shape:
  assumes "\<And>v. (\<exists>e. \<forall>n. f n v = Inl e) \<or> (\<exists>b. \<forall>n. f n v = Inr (t n @ b))"
  shows "(\<exists>e. \<forall>n. bind_e x (f n) = Inl e) \<or> (\<exists>b. \<forall>n. bind_e x (f n) = Inr (t n @ b))"
  using assms by (cases x) (auto simp: bind_e_def)

lemma convert_file_shape:
  "(\<exists>e. \<forall>n. convert_file cr d n = Inl e) \<or>
   (\<exists>body. \<forall>n. convert_file cr d n = Inr (''# '' @ generate_title n @ ''\<newline>\<newline>'' @ body))"
proof -
  define t where "t n = ''# '' @ generate_title n @ ''\<newline>\<newline>''" for n
  have "(\<exists>e. \<forall>n. convert_file cr d n = Inl e) \<or>
        (\<exists>b. \<forall>n. convert_file cr d n = Inr (t n @ b))"
    unfolding convert_file_def Let_def
    by (intro bind_shape) (simp add: t_def)
  then show ?thesis by (simp add: t_def)
qed




text \<open>
  Claim C2. The results for two source names are the same exception of the stages, or the
  same body behind the two title lines: the source name enters the result through
  \<^verbatim>\<open>_generate_title\<close> only.
\<close>

theorem source_name_only_in_title:
  "(\<exists>e. convert_file cr document_text n1 = Inl e \<and> convert_file cr document_text n2 = Inl e) \<or>
   (\<exists>body. convert_file cr document_text n1 = Inr (''# '' @ generate_title n1 @ ''\<newline>\<newline>'' @ body)
         \<and> convert_file cr document_text n2 = Inr (''# '' @ generate_title n2 @ ''\<newline>\<newline>'' @ body))"
  using convert_file_shape [of cr document_text] by blast

section \<open>Texts without tags\<close>

lemma lower_char_upper:
  assumes "is_upper x"
  shows "(of_char (lower_char x) :: nat) = of_char x + 32"
proof -
  have "(of_char x :: nat) + 32 < 256"
    using assms by (simp add: is_upper_def)
  then show ?thesis
    using assms by (simp add: lower_char_def)
qed

lemma lower_char_lt: "lower_char x = CHR ''<'' \<longleftrightarrow> x = CHR ''<''"
proof
  assume h: "lower_char x = CHR ''<''"
  show "x = CHR ''<''"
  proof (cases "is_upper x")
    case True
    from lower_char_upper [OF True] h have "(60::nat) = of_char x + 32" by simp
    with True show ?thesis by (simp add: is_upper_def)
  next
    case False
    with h show ?thesis by (simp add: lower_char_def)
  qed
next
  assume "x = CHR ''<''"
  then show "lower_char x = CHR ''<''" by (simp add: lower_char_def is_upper_def)
qed

lemma amatch_lt [simp]: "amatch fl (Lit CHR ''<'') x \<longleftrightarrow> x = CHR ''<''"
  using lower_char_lt [of x] lower_char_lt [of "CHR ''<''"] by auto



lemma sub_toks_Ch [simp]: "sub_toks f (map Ch s) = s"
  by (induction s) auto

lemma sub_toks_e_Ch [simp]: "sub_toks_e f (map Ch s) = Inr s"
  by (induction s) (auto simp: bind_e_def)

lemma findall_toks_Ch [simp]: "findall_toks (map Ch s) = []"
  by (induction s) auto

lemma split_toks_Ch [simp]: "split_toks gs cur (map Ch s) = [Some (cur @ s)]"
  by (induction s arbitrary: cur) auto











section \<open>A character reference that cannot be decoded\<close>






section \<open>Tables\<close>

lemma length_pad_row: "length (pad_row hs r) = max (length hs) (length r)"
  by (simp add: pad_row_def)






section \<open>A second run\<close>









section \<open>The title\<close>















section \<open>Searching for a literal\<close>

lemma startswith_take:
  "startswith s w \<longleftrightarrow> length w \<le> length s \<and> take (length w) s = w"
  by (induction s w rule: startswith.induct) auto

lemma startswith_append [simp]: "startswith (w @ s) w"
  by (simp add: startswith_take)






section \<open>Images\<close>










end
